theory Spec2Isabelle
  imports Complex_Main "HOL-Library.Log_Nat"
begin

section \<open>Data model\<close>

text \<open>
  A float cell of a pandas Series, an IEEE 754 binary64 value. An ordinary number is
  kept as the rational it stands for, \<open>Fin 0\<close> being the zero with a positive sign;
  \<open>NZero\<close> is the zero with a negative sign, \<open>NaN\<close> is what pandas shows for an
  undefined cell, \<open>PInf\<close> and \<open>NInf\<close> are the two infinities. Comparisons take a cell
  at its numeric value; the arithmetic further down rounds as the hardware does.
\<close>

datatype fval = Fin rat | NZero | NaN | PInf | NInf

datatype error = ValueError | KeyError | AttributeError

datatype column = FloatCol "fval list" | IntCol "int list"

text \<open>
  One row of the table that \<open>fetch_crypto_data\<close> returns: the index label that pandas
  keeps for the row, and the five selected columns. The rows have been through
  \<open>dropna\<close>, so every price is an ordinary number.
\<close>

record PriceRow =
  idx :: nat
  Date :: int
  Open :: rat
  High :: rat
  Low :: rat
  Close :: rat

text \<open>
  A DataFrame: the price rows, and the columns that were added to it under a name
  built at run time.
\<close>

record frame =
  rows :: "PriceRow list"
  derived :: "string \<rightharpoonup> column"

type_synonym addr = nat
type_synonym heap = "frame list"

section \<open>Series operations of pandas\<close>

definition and_then :: "error + 'a \<Rightarrow> ('a \<Rightarrow> error + 'b) \<Rightarrow> error + 'b" where
  "and_then m f = (case m of Inl e \<Rightarrow> Inl e | Inr x \<Rightarrow> f x)"

text \<open>\<open>Series.shift(periods)\<close>: the values move by \<open>periods\<close> positions, the freed cells are NaN.\<close>

definition shift :: "int \<Rightarrow> fval list \<Rightarrow> fval list" where
  "shift periods s =
     (let n = length s in
      if 0 \<le> periods
      then replicate (min (nat periods) n) NaN @ take (n - nat periods) s
      else drop (nat (- periods)) s @ replicate (min (nat (- periods)) n) NaN)"

text \<open>The cells a rolling window of size \<open>w\<close> sees at position \<open>i\<close>: positions \<open>i - w + 1\<close> to \<open>i\<close>, clamped at 0.\<close>

definition window :: "nat \<Rightarrow> nat \<Rightarrow> 'a list \<Rightarrow> 'a list" where
  "window w i s = drop (i + 1 - w) (take (i + 1) s)"

definition observations :: "fval list \<Rightarrow> fval list" where
  "observations x = filter (\<lambda>v. v \<noteq> NaN) x"

fun fmax :: "fval \<Rightarrow> fval \<Rightarrow> fval" where
  "fmax (Fin a) (Fin b) = Fin (max a b)"
| "fmax NaN b = b"
| "fmax a NaN = a"
| "fmax PInf b = PInf"
| "fmax a PInf = PInf"
| "fmax NInf b = b"
| "fmax a NInf = a"
| "fmax NZero (Fin b) = (if 0 < b then Fin b else NZero)"
| "fmax (Fin a) NZero = (if a < 0 then NZero else Fin a)"
| "fmax NZero NZero = NZero"

fun fmin :: "fval \<Rightarrow> fval \<Rightarrow> fval" where
  "fmin (Fin a) (Fin b) = Fin (min a b)"
| "fmin NaN b = b"
| "fmin a NaN = a"
| "fmin NInf b = NInf"
| "fmin a NInf = NInf"
| "fmin PInf b = b"
| "fmin a PInf = a"
| "fmin NZero (Fin b) = (if b < 0 then Fin b else NZero)"
| "fmin (Fin a) NZero = (if 0 < a then NZero else Fin a)"
| "fmin NZero NZero = NZero"

text \<open>
  Maximum and minimum of the cells of a window that are not NaN; NaN when there is none.
  The window is folded from its oldest cell on, the new cell being the first argument of
  \<open>fmax\<close> and \<open>fmin\<close>: of two cells that compare equal (the two zeros) the later one is
  kept.
\<close>

definition nanmax :: "fval list \<Rightarrow> fval" where
  "nanmax x = fold fmax x NaN"

definition nanmin :: "fval list \<Rightarrow> fval" where
  "nanmin x = fold fmin x NaN"

text \<open>
  \<open>Series.rolling(window, min_periods)\<close>, then an aggregate: the constructor refuses
  \<open>min_periods > window\<close>; a position whose window has fewer than \<open>min_periods\<close>
  observations is NaN.
\<close>

definition rolling :: "nat \<Rightarrow> nat \<Rightarrow> (fval list \<Rightarrow> fval) \<Rightarrow> fval list \<Rightarrow> error + fval list" where
  "rolling w min_periods agg s =
     (if w < min_periods then Inl ValueError
      else Inr (map (\<lambda>i. let x = window w i s in
                          if length (observations x) < min_periods then NaN else agg x)
                    [0..<length s]))"

text \<open>\<open>Series.argmax()\<close> and \<open>Series.argmin()\<close>: the first position of the largest (smallest) value, NaN skipped.\<close>

definition argmax :: "fval list \<Rightarrow> nat" where
  "argmax x = length (takeWhile (\<lambda>v. v \<noteq> nanmax x) x)"

definition argmin :: "fval list \<Rightarrow> nat" where
  "argmin x = length (takeWhile (\<lambda>v. v \<noteq> nanmin x) x)"

text \<open>The two lambdas handed to \<open>rolling(...).apply\<close>: \<open>len(x) - 1 - x[::-1].argmax()\<close> and its argmin twin.\<close>

definition since_high :: "fval list \<Rightarrow> fval" where
  "since_high x = Fin (of_int (int (length x) - 1 - int (argmax (rev x))))"

definition since_low :: "fval list \<Rightarrow> fval" where
  "since_low x = Fin (of_int (int (length x) - 1 - int (argmin (rev x))))"

text \<open>\<open>Series.astype(int)\<close>: truncation toward zero; a NaN or an infinity raises.\<close>

fun to_int :: "fval \<Rightarrow> error + int" where
  "to_int (Fin q) = Inr (if 0 \<le> q then \<lfloor>q\<rfloor> else \<lceil>q\<rceil>)"
| "to_int NZero = Inr 0"
| "to_int _ = Inl ValueError"

fun astype_int :: "fval list \<Rightarrow> error + int list" where
  "astype_int [] = Inr []"
| "astype_int (v # vs) =
     and_then (to_int v) (\<lambda>k. and_then (astype_int vs) (\<lambda>ks. Inr (k # ks)))"

subsection \<open>Binary64 arithmetic\<close>

text \<open>
  The nearest double of a real number other than 0, ties to the even significand:
  with \<open>e\<close> the binary exponent of the number (not below that of the smallest normal
  double), the doubles around it are the multiples of \<open>2^(e - 52)\<close>. A result beyond the
  largest double is an infinity, a result that rounds to nothing is a zero, and both keep
  the sign of the number.
\<close>

fun signed_inf :: "bool \<Rightarrow> fval" where
  "signed_inf positive = (if positive then PInf else NInf)"

fun signed_zero :: "bool \<Rightarrow> fval" where
  "signed_zero positive = (if positive then Fin 0 else NZero)"

text \<open>The binary exponent \<open>\<lfloor>log\<^sub>2 q\<rfloor>\<close> of a positive rational, from the bit lengths of its numerator and denominator.\<close>

definition ilog2 :: "rat \<Rightarrow> int" where
  "ilog2 q =
     (let (a, b) = quotient_of q; d = bitlen a - bitlen b
      in if 2 powi d \<le> q then d else d - 1)"

definition round_half_even :: "rat \<Rightarrow> int" where
  "round_half_even m =
     (let f = \<lfloor>m\<rfloor>; r = m - of_int f
      in if r < 1 / 2 then f else if 1 / 2 < r then f + 1 else if even f then f else f + 1)"

definition round64 :: "rat \<Rightarrow> fval" where
  "round64 q =
     (if q = 0 then Fin 0
      else
        let e = max (ilog2 \<bar>q\<bar>) (- 1022);
            ulp = 2 powi (e - 52);
            r = of_int (round_half_even (\<bar>q\<bar> / ulp)) * ulp
        in if 2 powi 1024 \<le> r then signed_inf (0 < q)
           else if r = 0 then signed_zero (0 < q)
           else Fin (if 0 < q then r else - r))"

fun negative :: "fval \<Rightarrow> bool" where
  "negative (Fin a) = (a < 0)"
| "negative NZero = True"
| "negative NaN = False"
| "negative PInf = False"
| "negative NInf = True"

fun is_zero :: "fval \<Rightarrow> bool" where
  "is_zero (Fin a) = (a = 0)"
| "is_zero NZero = True"
| "is_zero _ = False"

fun is_inf :: "fval \<Rightarrow> bool" where
  "is_inf PInf = True"
| "is_inf NInf = True"
| "is_inf _ = False"

fun the_rat :: "fval \<Rightarrow> rat" where
  "the_rat (Fin a) = a"
| "the_rat _ = 0"


text \<open>
  Subtraction, division and multiplication of two cells. None of them raises: a NaN
  operand gives NaN, infinities and zeros follow the IEEE rules for their signs (a
  difference that is exactly zero is \<open>+0\<close> unless it is \<open>-0 - +0\<close>; a division by a zero
  is an infinity, or NaN for \<open>0/0\<close>), and every other result is the exact one rounded.
\<close>

definition fsub :: "fval \<Rightarrow> fval \<Rightarrow> fval" where
  "fsub x y =
     (if x = NaN \<or> y = NaN then NaN
      else if is_inf x then (if is_inf y \<and> negative x = negative y then NaN else x)
      else if is_inf y then signed_inf (negative y)
      else if is_zero x \<and> is_zero y then signed_zero (\<not> (negative x \<and> \<not> negative y))
      else round64 (the_rat x - the_rat y))"

definition fdiv :: "fval \<Rightarrow> fval \<Rightarrow> fval" where
  "fdiv x y =
     (if x = NaN \<or> y = NaN then NaN
      else if is_inf x then (if is_inf y then NaN else signed_inf (negative x = negative y))
      else if is_inf y then signed_zero (negative x = negative y)
      else if is_zero y then (if is_zero x then NaN else signed_inf (negative x = negative y))
      else if is_zero x then signed_zero (negative x = negative y)
      else round64 (the_rat x / the_rat y))"

definition fmul :: "fval \<Rightarrow> fval \<Rightarrow> fval" where
  "fmul x y =
     (if x = NaN \<or> y = NaN then NaN
      else if is_inf x \<or> is_inf y
        then (if is_zero x \<or> is_zero y then NaN else signed_inf (negative x = negative y))
      else if is_zero x \<or> is_zero y then signed_zero (negative x = negative y)
      else round64 (the_rat x * the_rat y))"

definition series_sub :: "fval list \<Rightarrow> fval list \<Rightarrow> fval list" where
  "series_sub s t = map (\<lambda>(a, b). fsub a b) (zip s t)"

definition series_div :: "fval list \<Rightarrow> fval list \<Rightarrow> fval list" where
  "series_div s t = map (\<lambda>(a, b). fdiv a b) (zip s t)"

definition series_mul :: "fval list \<Rightarrow> rat \<Rightarrow> fval list" where
  "series_mul s c = map (\<lambda>a. fmul a (Fin c)) s"

section \<open>The heap of DataFrame objects\<close>

text \<open>
  DataFrames are objects: a variable holds an address, the heap is the list of the
  objects allocated so far, and a new object is appended. A read or a write through
  an address that names no DataFrame is an AttributeError.
\<close>

text \<open>\<open>data.copy()\<close>: a new object with the same contents.\<close>

definition copy :: "addr \<Rightarrow> heap \<Rightarrow> error + (addr \<times> heap)" where
  "copy a h = (if a < length h then Inr (length h, h @ [h ! a]) else Inl AttributeError)"

text \<open>\<open>data['High']\<close> and the like, for one of the price columns.\<close>

definition getitem :: "(PriceRow \<Rightarrow> rat) \<Rightarrow> addr \<Rightarrow> heap \<Rightarrow> error + fval list" where
  "getitem field a h =
     (if a < length h then Inr (map (\<lambda>r. Fin (field r)) (rows (h ! a))) else Inl AttributeError)"

text \<open>
  \<open>data[name]\<close> for a column added under a computed name; a missing name is a KeyError.
  In float arithmetic an integer column takes part as the doubles nearest to its cells.
\<close>

definition getitem_derived :: "string \<Rightarrow> addr \<Rightarrow> heap \<Rightarrow> error + fval list" where
  "getitem_derived name a h =
     (if a < length h
      then (case derived (h ! a) name of
              None \<Rightarrow> Inl KeyError
            | Some (FloatCol c) \<Rightarrow> Inr c
            | Some (IntCol c) \<Rightarrow> Inr (map (\<lambda>k. round64 (of_int k)) c))
      else Inl AttributeError)"

text \<open>\<open>data[name] = value\<close>: the object at the address is changed in place.\<close>

definition setitem :: "string \<Rightarrow> addr \<Rightarrow> column \<Rightarrow> heap \<Rightarrow> error + heap" where
  "setitem name a c h =
     (if a < length h
      then Inr (h[a := (h ! a)\<lparr>derived := (derived (h ! a))(name \<mapsto> c)\<rparr>])
      else Inl AttributeError)"

text \<open>An assignment statement evaluates its right-hand side on the current heap, then stores.\<close>

definition assign :: "addr \<Rightarrow> string \<Rightarrow> (heap \<Rightarrow> error + column) \<Rightarrow> heap \<Rightarrow> error + heap" where
  "assign a name rhs h = and_then (rhs h) (\<lambda>c. setitem name a c h)"

text \<open>Statements run in order; the first exception ends the run.\<close>

fun exec :: "(heap \<Rightarrow> error + heap) list \<Rightarrow> heap \<Rightarrow> error + heap" where
  "exec [] h = Inr h"
| "exec (stmt # stmts) h = and_then (stmt h) (exec stmts)"

section \<open>Column names\<close>

definition digit_char :: "nat \<Rightarrow> char" where
  "digit_char d = char_of (48 + d)"

text \<open>The decimal digits of a number, as an f-string prints it.\<close>

fun str :: "nat \<Rightarrow> string" where
  "str n = (if n < 10 then [digit_char n] else str (n div 10) @ [digit_char (n mod 10)])"

declare str.simps [simp del]

definition High_Last :: "nat \<Rightarrow> string" where
  "High_Last variable1 = ''High_Last_'' @ str variable1 @ ''_Days''"

definition Low_Last :: "nat \<Rightarrow> string" where
  "Low_Last variable1 = ''Low_Last_'' @ str variable1 @ ''_Days''"

definition Days_Since_High_Last :: "nat \<Rightarrow> string" where
  "Days_Since_High_Last variable1 = ''Days_Since_High_Last_'' @ str variable1 @ ''_Days''"

definition Days_Since_Low_Last :: "nat \<Rightarrow> string" where
  "Days_Since_Low_Last variable1 = ''Days_Since_Low_Last_'' @ str variable1 @ ''_Days''"

definition High_Next :: "nat \<Rightarrow> string" where
  "High_Next variable2 = ''High_Next_'' @ str variable2 @ ''_Days''"

definition Low_Next :: "nat \<Rightarrow> string" where
  "Low_Next variable2 = ''Low_Next_'' @ str variable2 @ ''_Days''"

definition Pct_Diff_From :: "string \<Rightarrow> string" where
  "Pct_Diff_From name = ''%_Diff_From_'' @ name"

section \<open>calculate_metrics\<close>

text \<open>\<open>data[col].rolling(window=w, min_periods=1).max()\<close>, or \<open>.min()\<close>.\<close>

definition trailing :: "(PriceRow \<Rightarrow> rat) \<Rightarrow> (fval list \<Rightarrow> fval) \<Rightarrow> nat \<Rightarrow> addr \<Rightarrow> heap \<Rightarrow> error + column" where
  "trailing field agg w data h =
     and_then (getitem field data h) (\<lambda>s.
     and_then (rolling w 1 agg s) (\<lambda>c. Inr (FloatCol c)))"

text \<open>\<open>data[col].rolling(window=w, min_periods=1).apply(f).astype(int)\<close>.\<close>

definition days_since :: "(PriceRow \<Rightarrow> rat) \<Rightarrow> (fval list \<Rightarrow> fval) \<Rightarrow> nat \<Rightarrow> addr \<Rightarrow> heap \<Rightarrow> error + column" where
  "days_since field f w data h =
     and_then (getitem field data h) (\<lambda>s.
     and_then (rolling w 1 f s) (\<lambda>c.
     and_then (astype_int c) (\<lambda>ks. Inr (IntCol ks))))"

text \<open>\<open>data[col].shift(-w).rolling(window=w, min_periods=1).max()\<close>, or \<open>.min()\<close>.\<close>

definition leading :: "(PriceRow \<Rightarrow> rat) \<Rightarrow> (fval list \<Rightarrow> fval) \<Rightarrow> nat \<Rightarrow> addr \<Rightarrow> heap \<Rightarrow> error + column" where
  "leading field agg w data h =
     and_then (getitem field data h) (\<lambda>s.
     and_then (rolling w 1 agg (shift (- int w) s)) (\<lambda>c. Inr (FloatCol c)))"

text \<open>\<open>((data['Close'] - data[name]) / data[name]) * 100\<close>.\<close>

definition pct_diff :: "string \<Rightarrow> addr \<Rightarrow> heap \<Rightarrow> error + column" where
  "pct_diff name data h =
     and_then (getitem Close data h) (\<lambda>close.
     and_then (getitem_derived name data h) (\<lambda>e1.
     and_then (getitem_derived name data h) (\<lambda>e2.
     Inr (FloatCol (series_mul (series_div (series_sub close e1) e2) 100)))))"

text \<open>
  The function itself: the argument is copied, the twelve columns are added to the
  copy one statement after the other, and the address of the copy is returned.
\<close>

definition calculate_metrics :: "addr \<Rightarrow> nat \<Rightarrow> nat \<Rightarrow> heap \<Rightarrow> error + (addr \<times> heap)" where
  "calculate_metrics data0 variable1 variable2 h0 =
     and_then (copy data0 h0) (\<lambda>(data, h1).
     and_then
       (exec
         [assign data (High_Last variable1) (trailing High nanmax variable1 data),
          assign data (Low_Last variable1) (trailing Low nanmin variable1 data),
          assign data (Days_Since_High_Last variable1) (days_since High since_high variable1 data),
          assign data (Days_Since_Low_Last variable1) (days_since Low since_low variable1 data),
          assign data (High_Next variable2) (leading High nanmax variable2 data),
          assign data (Low_Next variable2) (leading Low nanmin variable2 data),
          assign data (Pct_Diff_From (High_Last variable1)) (pct_diff (High_Last variable1) data),
          assign data (Pct_Diff_From (Low_Last variable1)) (pct_diff (Low_Last variable1) data),
          assign data (Pct_Diff_From (High_Next variable2)) (pct_diff (High_Next variable2) data),
          assign data (Pct_Diff_From (Low_Next variable2)) (pct_diff (Low_Next variable2) data)]
         h1)
       (\<lambda>h2. Inr (data, h2)))"

text \<open>The ten columns the function adds.\<close>

definition metric_names :: "nat \<Rightarrow> nat \<Rightarrow> string list" where
  "metric_names variable1 variable2 =
     [High_Last variable1, Low_Last variable1,
      Days_Since_High_Last variable1, Days_Since_Low_Last variable1,
      High_Next variable2, Low_Next variable2,
      Pct_Diff_From (High_Last variable1), Pct_Diff_From (Low_Last variable1),
      Pct_Diff_From (High_Next variable2), Pct_Diff_From (Low_Next variable2)]"

text \<open>
  What the caller holds after the call: the DataFrame behind the returned address, and
  the cells of its added columns. A call that raised has returned nothing.
\<close>

definition returned :: "error + (addr \<times> heap) \<Rightarrow> frame option" where
  "returned r =
     (case r of Inl e \<Rightarrow> None | Inr (d, h) \<Rightarrow> if d < length h then Some (h ! d) else None)"

definition float_cell :: "error + (addr \<times> heap) \<Rightarrow> string \<Rightarrow> nat \<Rightarrow> fval option" where
  "float_cell r name i =
     (case returned r of
        None \<Rightarrow> None
      | Some f \<Rightarrow>
          (case derived f name of
             Some (FloatCol c) \<Rightarrow> (if i < length c then Some (c ! i) else None)
           | _ \<Rightarrow> None))"

definition int_cell :: "error + (addr \<times> heap) \<Rightarrow> string \<Rightarrow> nat \<Rightarrow> int option" where
  "int_cell r name i =
     (case returned r of
        None \<Rightarrow> None
      | Some f \<Rightarrow>
          (case derived f name of
             Some (IntCol c) \<Rightarrow> (if i < length c then Some (c ! i) else None)
           | _ \<Rightarrow> None))"

fun column_length :: "column \<Rightarrow> nat" where
  "column_length (FloatCol c) = length c"
| "column_length (IntCol c) = length c"

section \<open>fetch_crypto_data\<close>

text \<open>\<open>str.lower()\<close> on ASCII letters and \<open>str.split(sep)\<close>.\<close>

definition lower_char :: "char \<Rightarrow> char" where
  "lower_char c =
     (let k = of_char c :: nat in if 65 \<le> k \<and> k \<le> 90 then char_of (k + 32) else c)"

definition lower :: "string \<Rightarrow> string" where
  "lower s = map lower_char s"

fun split :: "char \<Rightarrow> string \<Rightarrow> string list" where
  "split sep [] = [[]]"
| "split sep (c # cs) =
     (if c = sep then [] # split sep cs
      else (case split sep cs of [] \<Rightarrow> [[c]] | w # ws \<Rightarrow> (c # w) # ws))"

text \<open>
  What the function asks of the outside world: the parse of the start date into a
  timestamp (\<open>strptime\<close> raises on a malformed date), the clock, and the market-chart
  request, which either raises (connection, HTTP status, a body without prices) or
  delivers the \<open>[timestamp, price]\<close> pairs; a price may be null.
\<close>

record world =
  strptime :: "string \<Rightarrow> error + int"
  now :: int
  market_chart_range :: "string \<Rightarrow> string \<Rightarrow> int \<Rightarrow> int \<Rightarrow> error + (int \<times> rat option) list"

fun of_json :: "rat option \<Rightarrow> fval" where
  "of_json None = NaN"
| "of_json (Some q) = Fin q"

text \<open>
  \<open>df.dropna()\<close> followed by the selection of the five columns: a row stays when none of
  its cells is NaN, and keeps its index label.
\<close>

definition dropna :: "int list \<Rightarrow> fval list \<Rightarrow> fval list \<Rightarrow> fval list \<Rightarrow> fval list \<Rightarrow> PriceRow list" where
  "dropna date close opn high low =
     List.map_filter
       (\<lambda>i. case (opn ! i, high ! i, low ! i, close ! i) of
               (Fin o1, Fin h1, Fin l1, Fin c1) \<Rightarrow>
                 Some \<lparr>idx = i, Date = date ! i, Open = o1, High = h1, Low = l1, Close = c1\<rparr>
             | _ \<Rightarrow> None)
       [0..<length date]"

text \<open>\<open>df.tail(k)\<close>: the last \<open>k\<close> rows.\<close>

definition tail :: "nat \<Rightarrow> 'a list \<Rightarrow> 'a list" where
  "tail k xs = drop (length xs - k) xs"

definition empty_frame :: frame where
  "empty_frame = \<lparr>rows = [], derived = Map.empty\<rparr>"

text \<open>The body of the \<open>try\<close> block; \<open>Inl\<close> is an exception that leaves it.\<close>

definition fetch_body :: "world \<Rightarrow> string \<Rightarrow> string \<Rightarrow> error + frame" where
  "fetch_body env crypto_pair start_date =
     (case split CHR ''/'' (lower crypto_pair) of
        [crypto_id, vs_currency] \<Rightarrow>
          and_then (strptime env start_date) (\<lambda>start_date_ts.
          let to_date_ts = now env;
              max_days = 14 * 86400;
              start_date_ts = (if to_date_ts - start_date_ts > max_days
                               then to_date_ts - max_days else start_date_ts)
          in
          and_then (market_chart_range env crypto_id vs_currency start_date_ts to_date_ts) (\<lambda>prices.
          let date = map fst prices;
              close = map (\<lambda>p. of_json (snd p)) prices;
              opn = shift 1 close
          in
          and_then (rolling 2 2 nanmax close) (\<lambda>high.
          and_then (rolling 2 2 nanmin close) (\<lambda>low.
          Inr \<lparr>rows = tail 14 (dropna date close opn high low), derived = Map.empty\<rparr>))))
      | _ \<Rightarrow> Inl ValueError)"

text \<open>Both \<open>except\<close> clauses print and fall through to \<open>return pd.DataFrame()\<close>.\<close>

definition fetch_crypto_data :: "world \<Rightarrow> string \<Rightarrow> string \<Rightarrow> frame" where
  "fetch_crypto_data env crypto_pair start_date =
     (case fetch_body env crypto_pair start_date of Inl e \<Rightarrow> empty_frame | Inr df \<Rightarrow> df)"

section \<open>Sample tables\<close>

text \<open>
  Small tables of the shape \<open>fetch_crypto_data\<close> delivers (Open is the previous Close, High
  and Low the larger and the smaller of the two), on which the statements below are
  exercised.
\<close>

definition rising :: frame where
  "rising = \<lparr>rows = [\<lparr>idx = 1, Date = 86400000, Open = 1, High = 1, Low = 1, Close = 1\<rparr>,
                     \<lparr>idx = 2, Date = 172800000, Open = 1, High = 2, Low = 1, Close = 2\<rparr>,
                     \<lparr>idx = 3, Date = 259200000, Open = 2, High = 9, Low = 2, Close = 9\<rparr>],
             derived = Map.empty\<rparr>"

definition spike :: frame where
  "spike = \<lparr>rows = [\<lparr>idx = 2, Date = 172800000, Open = 1, High = 9, Low = 1, Close = 9\<rparr>,
                    \<lparr>idx = 3, Date = 259200000, Open = 9, High = 9, Low = 2, Close = 2\<rparr>,
                    \<lparr>idx = 4, Date = 345600000, Open = 2, High = 2, Low = 1, Close = 1\<rparr>],
            derived = Map.empty\<rparr>"

definition tied :: frame where
  "tied = \<lparr>rows = [\<lparr>idx = 1, Date = 86400000, Open = 4, High = 5, Low = 4, Close = 5\<rparr>,
                   \<lparr>idx = 2, Date = 172800000, Open = 5, High = 5, Low = 3, Close = 3\<rparr>,
                   \<lparr>idx = 3, Date = 259200000, Open = 3, High = 3, Low = 2, Close = 2\<rparr>],
           derived = Map.empty\<rparr>"

definition dip :: frame where
  "dip = \<lparr>rows = [\<lparr>idx = 1, Date = 86400000, Open = 0, High = 5, Low = 0, Close = 5\<rparr>],
          derived = Map.empty\<rparr>"


definition zero_low :: frame where
  "zero_low = \<lparr>rows = [\<lparr>idx = 1, Date = 86400000, Open = 3, High = 3, Low = 0, Close = 0\<rparr>,
                       \<lparr>idx = 2, Date = 172800000, Open = 0, High = 7, Low = 0, Close = 7\<rparr>],
               derived = Map.empty\<rparr>"


definition demo_world :: world where
  "demo_world = \<lparr>strptime = (\<lambda>s. Inr 1672531200), now = 1673000000,
     market_chart_range = (\<lambda>crypto_id vs_currency from_ts to_ts.
        Inr [(1672531200000, Some 1), (1672617600000, Some 3), (1672704000000, Some 2)])\<rparr>"

text \<open>A cell that is an ordinary number or NaN, as every cell of a shifted price column is.\<close>

definition plain :: "fval \<Rightarrow> bool" where
  "plain v \<longleftrightarrow> v = NaN \<or> (\<exists>q. v = Fin q)"

section \<open>Facts about the Series operations\<close>

lemma fold_fmax_Fin: "fold fmax (map Fin xs) (Fin a) = Fin (fold max xs a)"
  by (induction xs arbitrary: a) simp_all

lemma fold_fmin_Fin: "fold fmin (map Fin xs) (Fin a) = Fin (fold min xs a)"
  by (induction xs arbitrary: a) simp_all

lemma nanmax_Fin: "xs \<noteq> [] \<Longrightarrow> nanmax (map Fin xs) = Fin (Max (set xs))"
  by (cases xs) (simp_all add: nanmax_def fold_fmax_Fin flip: Max.set_eq_fold)

lemma nanmin_Fin: "xs \<noteq> [] \<Longrightarrow> nanmin (map Fin xs) = Fin (Min (set xs))"
  by (cases xs) (simp_all add: nanmin_def fold_fmin_Fin flip: Min.set_eq_fold)

lemma drop_take_nth: "b \<le> length s \<Longrightarrow> drop a (take b s) = map (\<lambda>j. s ! j) [a ..< b]"
  by (rule nth_equalityI) auto

lemma window_nth: "i < length s \<Longrightarrow> window w i s = map (\<lambda>j. s ! j) [i + 1 - w ..< i + 1]"
  unfolding window_def by (rule drop_take_nth) simp

lemma window_map: "window w i (map f s) = map f (window w i s)"
  by (simp add: window_def drop_map take_map)

lemma window_length: "i < length s \<Longrightarrow> length (window w i s) = min w (i + 1)"
  by (auto simp add: window_def)

lemma window_nonempty: "i < length s \<Longrightarrow> 0 < w \<Longrightarrow> window w i s \<noteq> []"
  using window_length [of i s w] by (cases "window w i s") auto

lemma window_range: "{i + 1 - w ..< i + 1} = {j. max 0 (int i - int w + 1) \<le> int j \<and> j \<le> i}"
  by auto

lemma window_set_field:
  assumes "i < length rs"
  shows "set (window w i (map f rs)) = {f (rs ! j) | j. max 0 (int i - int w + 1) \<le> int j \<and> j \<le> i}"
proof -
  have "set (window w i (map f rs)) = (\<lambda>j. map f rs ! j) ` {i + 1 - w ..< i + 1}"
    using assms by (simp only: window_nth length_map set_map set_upt)
  also have "\<dots> = (\<lambda>j. f (rs ! j)) ` {i + 1 - w ..< i + 1}"
    using assms by (intro image_cong) auto
  also have "\<dots> = {f (rs ! j) | j. max 0 (int i - int w + 1) \<le> int j \<and> j \<le> i}"
    unfolding window_range by blast
  finally show ?thesis .
qed

lemma observations_Fin: "observations (map Fin xs) = map Fin xs"
  by (simp add: observations_def filter_map o_def)

lemma rolling_Fin:
  "0 < w \<Longrightarrow> rolling w 1 agg (map Fin xs) = Inr (map (\<lambda>i. agg (map Fin (window w i xs))) [0..<length xs])"
  using window_nonempty [of _ xs w]
  by (auto simp add: rolling_def window_map observations_Fin Let_def)

lemma astype_int_ints: "astype_int (map (\<lambda>i. Fin (of_int (g i))) js) = Inr (map g js)"
  by (induction js) (simp_all add: and_then_def)

lemma length_shift: "length (shift p s) = length s"
  by (auto simp add: shift_def Let_def)

lemma shift_back_nth:
  assumes i: "i < length s"
  shows "shift (- int w) s ! i = (if i + w < length s then s ! (i + w) else NaN)"
proof (cases "w = 0")
  case True
  then show ?thesis using i by (simp add: shift_def)
next
  case False
  have "i - (length s - w) < min w (length s)" if "\<not> i + w < length s"
    using that i False by auto
  then show ?thesis
    using False i by (auto simp add: shift_def Let_def nth_append add.commute)
qed

lemma shift_one_nth:
  "i < length s \<Longrightarrow> shift 1 s ! i = (if i = 0 then NaN else s ! (i - 1))"
  by (cases s) (auto simp add: shift_def Let_def nth_append nth_Cons')

lemma window_two: "i < length s \<Longrightarrow> window 2 i s = (if i = 0 then [s ! 0] else [s ! (i - 1), s ! i])"
  by (cases i) (simp_all add: window_nth)

lemma rolling_two_nth:
  assumes "rolling 2 2 agg s = Inr c" "i < length s" "c ! i = Fin q"
  shows "0 < i \<and> s ! (i - 1) \<noteq> NaN \<and> s ! i \<noteq> NaN \<and> agg [s ! (i - 1), s ! i] = Fin q"
proof -
  have "c ! i = (let x = window 2 i s in if length (observations x) < 2 then NaN else agg x)"
    using assms(1,2) by (auto simp add: rolling_def)
  with assms(2,3) show ?thesis
    by (auto simp add: window_two Let_def observations_def split: if_splits)
qed

lemma fmax_plain: "plain u \<Longrightarrow> plain v \<Longrightarrow> plain (fmax u v) \<and> (fmax u v = NaN \<longleftrightarrow> u = NaN \<and> v = NaN)"
  by (auto simp add: plain_def)

lemma fmin_plain: "plain u \<Longrightarrow> plain v \<Longrightarrow> plain (fmin u v) \<and> (fmin u v = NaN \<longleftrightarrow> u = NaN \<and> v = NaN)"
  by (auto simp add: plain_def)

lemma fold_fmax_plain:
  "\<forall>v\<in>set x. plain v \<Longrightarrow> plain acc \<Longrightarrow>
   plain (fold fmax x acc) \<and> (fold fmax x acc = NaN \<longleftrightarrow> acc = NaN \<and> observations x = [])"
proof (induction x arbitrary: acc)
  case Nil
  then show ?case by (simp add: observations_def)
next
  case (Cons v x)
  then have "plain (fmax v acc)" and "fmax v acc = NaN \<longleftrightarrow> v = NaN \<and> acc = NaN"
    using fmax_plain [of v acc] by simp_all
  with Cons show ?case
    by (auto simp add: observations_def)
qed

lemma fold_fmin_plain:
  "\<forall>v\<in>set x. plain v \<Longrightarrow> plain acc \<Longrightarrow>
   plain (fold fmin x acc) \<and> (fold fmin x acc = NaN \<longleftrightarrow> acc = NaN \<and> observations x = [])"
proof (induction x arbitrary: acc)
  case Nil
  then show ?case by (simp add: observations_def)
next
  case (Cons v x)
  then have "plain (fmin v acc)" and "fmin v acc = NaN \<longleftrightarrow> v = NaN \<and> acc = NaN"
    using fmin_plain [of v acc] by simp_all
  with Cons show ?case
    by (auto simp add: observations_def)
qed

lemma nanmax_defined: "\<forall>v\<in>set x. plain v \<Longrightarrow> observations x \<noteq> [] \<Longrightarrow> \<exists>q. nanmax x = Fin q"
  using fold_fmax_plain [of x NaN] by (auto simp add: nanmax_def plain_def)

lemma nanmin_defined: "\<forall>v\<in>set x. plain v \<Longrightarrow> observations x \<noteq> [] \<Longrightarrow> \<exists>q. nanmin x = Fin q"
  using fold_fmin_plain [of x NaN] by (auto simp add: nanmin_def plain_def)

lemma ahead_window:
  assumes "i < length rs"
  shows "window w i (shift (- int w) (map (\<lambda>r. Fin (f r)) rs)) =
           map (\<lambda>j. if j + w < length rs then Fin (f (rs ! (j + w))) else NaN) [i + 1 - w ..< i + 1]"
proof -
  have "window w i (shift (- int w) (map (\<lambda>r. Fin (f r)) rs)) =
          map (\<lambda>j. shift (- int w) (map (\<lambda>r. Fin (f r)) rs) ! j) [i + 1 - w ..< i + 1]"
    using assms by (simp only: window_nth length_shift length_map)
  also have "\<dots> = map (\<lambda>j. if j + w < length rs then Fin (f (rs ! (j + w))) else NaN) [i + 1 - w ..< i + 1]"
  proof (intro map_cong refl)
    fix j assume "j \<in> set [i + 1 - w ..< i + 1]"
    then have "j < length (map (\<lambda>r. Fin (f r)) rs)"
      using assms by auto
    then show "shift (- int w) (map (\<lambda>r. Fin (f r)) rs) ! j =
                 (if j + w < length rs then Fin (f (rs ! (j + w))) else NaN)"
      by (simp add: shift_back_nth)
  qed
  finally show ?thesis .
qed

lemma ahead_plain:
  assumes "i < length rs"
  shows "\<forall>v\<in>set (window w i (shift (- int w) (map (\<lambda>r. Fin (f r)) rs))). plain v"
  unfolding ahead_window [OF assms] by (auto simp add: plain_def)

lemma ahead_empty:
  assumes "i < length rs" "0 < w"
  shows "observations (window w i (shift (- int w) (map (\<lambda>r. Fin (f r)) rs))) = []
           \<longleftrightarrow> length rs \<le> w \<or> i + 1 = length rs"
proof -
  have "observations (window w i (shift (- int w) (map (\<lambda>r. Fin (f r)) rs))) = []
          \<longleftrightarrow> (\<forall>j\<in>{i + 1 - w ..< i + 1}. \<not> j + w < length rs)"
    unfolding ahead_window [OF assms(1)] observations_def
    by (simp only: filter_empty_conv set_map set_upt) auto
  also have "\<dots> \<longleftrightarrow> \<not> (i + 1 - w) + w < length rs"
    using assms by auto
  also have "\<dots> \<longleftrightarrow> length rs \<le> w \<or> i + 1 = length rs"
    using assms by auto
  finally show ?thesis .
qed

lemma pct_nth:
  "i < length cl \<Longrightarrow> i < length e \<Longrightarrow>
   series_mul (series_div (series_sub cl e) e) c ! i
     = fmul (fdiv (fsub (cl ! i) (e ! i)) (e ! i)) (Fin c)"
  by (simp add: series_mul_def series_div_def series_sub_def)

lemma pct_length:
  "length (series_mul (series_div (series_sub cl e) e) c) = min (length cl) (length e)"
  by (simp add: series_mul_def series_div_def series_sub_def)

section \<open>Facts about binary64 rounding\<close>

text \<open>The exponent found by \<open>ilog2\<close> is the binary exponent, and it is the only one.\<close>

lemma ilog2_bounds:
  assumes "0 < q"
  shows "2 powi (ilog2 q) \<le> q \<and> q < 2 powi (ilog2 q + 1)"
proof -
  obtain a b where ab: "quotient_of q = (a, b)"
    by (cases "quotient_of q")
  then have b: "0 < b" and q: "q = of_int a / of_int b"
    using quotient_of_denom_pos quotient_of_div by blast+
  with assms have a: "0 < a"
    by (simp add: zero_less_divide_iff)
  define d where "d = bitlen a - bitlen b"
  have la: "1 \<le> bitlen a" and lb: "1 \<le> bitlen b"
    using a b by (simp_all add: bitlen_alt_def)
  have "(2::int) ^ nat (bitlen a - 1) \<le> a" "a < 2 ^ nat (bitlen a)"
    and "(2::int) ^ nat (bitlen b - 1) \<le> b" "b < 2 ^ nat (bitlen b)"
    using bitlen_bounds [OF a] bitlen_bounds [OF b] by simp_all
  then have ra: "(2::rat) ^ nat (bitlen a - 1) \<le> of_int a" "of_int a < (2::rat) ^ nat (bitlen a)"
    and rb: "(2::rat) ^ nat (bitlen b - 1) \<le> of_int b" "of_int b < (2::rat) ^ nat (bitlen b)"
    by (metis of_int_le_iff of_int_less_iff of_int_numeral of_int_power)+
  have pa: "(2::rat) powi (bitlen a - 1) \<le> of_int a" "of_int a < (2::rat) powi (bitlen a)"
    and pb: "(2::rat) powi (bitlen b - 1) \<le> of_int b" "of_int b < (2::rat) powi (bitlen b)"
    using ra rb la lb by (simp_all add: power_int_def)
  have bpos: "(0::rat) < of_int b" using b by simp
  have lower: "2 powi (d - 1) < q"
  proof -
    have "(2::rat) powi (d - 1) = 2 powi (bitlen a - 1) / 2 powi (bitlen b)"
      unfolding d_def by (simp add: power_int_diff [symmetric] algebra_simps)
    also have "\<dots> \<le> of_int a / 2 powi (bitlen b)"
      using pa(1) by (simp add: divide_right_mono)
    also have "\<dots> < of_int a / of_int b"
      using pb(2) a bpos by (simp add: divide_strict_left_mono)
    finally show ?thesis using q by simp
  qed
  have upper: "q < 2 powi (d + 1)"
  proof -
    have "q = of_int a / of_int b" by (rule q)
    also have "\<dots> < 2 powi (bitlen a) / of_int b"
      using pa(2) bpos by (simp add: divide_strict_right_mono)
    also have "\<dots> \<le> 2 powi (bitlen a) / 2 powi (bitlen b - 1)"
      using pb(1) by (intro frac_le) simp_all
    also have "\<dots> = 2 powi (d + 1)"
      unfolding d_def by (simp add: power_int_diff [symmetric] algebra_simps)
    finally show ?thesis .
  qed
  have il: "ilog2 q = (if 2 powi d \<le> q then d else d - 1)"
    by (simp add: ilog2_def ab d_def Let_def)
  show ?thesis
  proof (cases "2 powi d \<le> q")
    case True
    then show ?thesis using upper il by simp
  next
    case False
    then show ?thesis using lower il by simp
  qed
qed

lemma ilog2_unique:
  assumes "0 < q" "2 powi e \<le> q" "q < 2 powi (e + 1)"
  shows "ilog2 q = e"
proof -
  from ilog2_bounds [OF assms(1)]
  have lo: "2 powi (ilog2 q) \<le> q" and hi: "q < 2 powi (ilog2 q + 1)" by simp_all
  have "(2::rat) powi e < 2 powi (ilog2 q + 1)" using assms(2) hi by simp
  then have "e < ilog2 q + 1"
    by (metis not_less one_le_numeral power_int_increasing)
  moreover have "(2::rat) powi (ilog2 q) < 2 powi (e + 1)" using lo assms(3) by simp
  then have "ilog2 q < e + 1"
    by (metis not_less one_le_numeral power_int_increasing)
  ultimately show ?thesis by simp
qed


lemma round64_eval:
  assumes "q \<noteq> 0" "2 powi e \<le> \<bar>q\<bar>" "\<bar>q\<bar> < 2 powi (e + 1)"
  shows "round64 q =
     (let ulp = 2 powi (max e (- 1022) - 52);
          r = of_int (round_half_even (\<bar>q\<bar> / ulp)) * ulp
      in if 2 powi 1024 \<le> r then signed_inf (0 < q)
         else if r = 0 then signed_zero (0 < q)
         else Fin (if 0 < q then r else - r))"
proof -
  have "ilog2 \<bar>q\<bar> = e"
    using assms by (intro ilog2_unique) simp_all
  then show ?thesis
    using assms(1) by (simp add: round64_def Let_def)
qed

lemma round64_not_NaN: "round64 q \<noteq> NaN"
  by (simp add: round64_def Let_def)






lemma pct_of_zero:
  assumes "is_zero z"
  shows "fmul (fdiv (fsub (Fin c) z) z) (Fin 100) \<in> {NaN, PInf, NInf}"
proof -
  have z: "z \<noteq> NaN" "\<not> is_inf z"
    using assms by (cases z; simp)+
  have d: "fsub (Fin c) z \<noteq> NaN"
    using z by (simp add: fsub_def round64_not_NaN)
  have "fdiv (fsub (Fin c) z) z \<in> {NaN, PInf, NInf}"
    using z d assms by (simp add: fdiv_def)
  then show ?thesis
    by (auto simp add: fmul_def)
qed


text \<open>Roundings used on the sample tables; the exponent is given, the rest is computed.\<close>

lemma floor_rat_numeral: "\<lfloor>numeral a / numeral b :: rat\<rfloor> = numeral a div numeral b"
  using floor_divide_of_int_eq [of "numeral a" "numeral b", where ?'a = rat] by simp

lemmas round64_simps = round_half_even_def Let_def floor_rat_numeral


lemma round64_exact_5: "round64 5 = Fin 5"
  by (subst round64_eval [where e = 2]) (simp_all add: round64_simps)

lemma round64_exact_7: "round64 7 = Fin 7"
  by (subst round64_eval [where e = 2]) (simp_all add: round64_simps)






section \<open>Running calculate_metrics\<close>

text \<open>The column names never collide, whatever the two window sizes are.\<close>

lemmas col_names = High_Last_def Low_Last_def Days_Since_High_Last_def Days_Since_Low_Last_def
  High_Next_def Low_Next_def Pct_Diff_From_def

lemma names_distinct [simp]:
  "High_Last m \<noteq> Low_Last n" "High_Last m \<noteq> Days_Since_High_Last n"
  "High_Last m \<noteq> Days_Since_Low_Last n" "High_Last m \<noteq> High_Next n" "High_Last m \<noteq> Low_Next n"
  "High_Last m \<noteq> Pct_Diff_From s"
  "Low_Last m \<noteq> Days_Since_High_Last n"
  "Low_Last m \<noteq> Days_Since_Low_Last n" "Low_Last m \<noteq> High_Next n" "Low_Last m \<noteq> Low_Next n"
  "Low_Last m \<noteq> Pct_Diff_From s"
  "Days_Since_High_Last m \<noteq> Days_Since_Low_Last n" "Days_Since_High_Last m \<noteq> High_Next n"
  "Days_Since_High_Last m \<noteq> Low_Next n" "Days_Since_High_Last m \<noteq> Pct_Diff_From s"
  "Days_Since_Low_Last m \<noteq> High_Next n"
  "Days_Since_Low_Last m \<noteq> Low_Next n" "Days_Since_Low_Last m \<noteq> Pct_Diff_From s"
  "High_Next m \<noteq> Low_Next n" "High_Next m \<noteq> Pct_Diff_From s"
  "Low_Next m \<noteq> Pct_Diff_From s"
  by (simp_all add: col_names)

lemma Pct_Diff_From_inj [simp]: "Pct_Diff_From s = Pct_Diff_From t \<longleftrightarrow> s = t"
  by (simp add: Pct_Diff_From_def)

lemma trailing_run:
  "a < length h \<Longrightarrow> 0 < w \<Longrightarrow>
   trailing field agg w a h =
     Inr (FloatCol (map (\<lambda>i. agg (map Fin (window w i (map field (rows (h ! a))))))
                        [0..<length (rows (h ! a))]))"
  using rolling_Fin [of w agg "map field (rows (h ! a))"]
  by (simp add: trailing_def getitem_def and_then_def o_def)

lemma days_since_run:
  assumes "a < length h" "0 < w" "\<And>x. f x = Fin (of_int (g x))"
  shows "days_since field f w a h =
     Inr (IntCol (map (\<lambda>i. g (map Fin (window w i (map field (rows (h ! a))))))
                      [0..<length (rows (h ! a))]))"
  using rolling_Fin [of w f "map field (rows (h ! a))"] assms
    astype_int_ints [of "\<lambda>i. g (map Fin (window w i (map field (rows (h ! a)))))"]
  by (simp add: days_since_def getitem_def and_then_def o_def)

lemma leading_run:
  "a < length h \<Longrightarrow> 0 < w \<Longrightarrow>
   leading field agg w a h =
     Inr (FloatCol (map (\<lambda>i. let x = window w i (shift (- int w) (map (\<lambda>r. Fin (field r)) (rows (h ! a))))
                              in if observations x = [] then NaN else agg x)
                        [0..<length (rows (h ! a))]))"
  by (auto simp add: leading_def getitem_def and_then_def rolling_def length_shift Let_def)

lemma since_high_int: "since_high x = Fin (of_int (int (length x) - 1 - int (argmax (rev x))))"
  by (simp add: since_high_def)

lemma since_low_int: "since_low x = Fin (of_int (int (length x) - 1 - int (argmin (rev x))))"
  by (simp add: since_low_def)

lemma assign_run:
  "rhs (h @ [f]) = Inr c \<Longrightarrow>
   assign (length h) name rhs (h @ [f]) = Inr (h @ [f\<lparr>derived := (derived f)(name \<mapsto> c)\<rparr>])"
  by (simp add: assign_def setitem_def and_then_def)

lemma pct_diff_run:
  "derived f name = Some (FloatCol e) \<Longrightarrow>
   pct_diff name (length h) (h @ [f]) =
     Inr (FloatCol (series_mul (series_div (series_sub (map (\<lambda>r. Fin (Close r)) (rows f)) e) e) 100))"
  by (simp add: pct_diff_def getitem_def getitem_derived_def and_then_def)

text \<open>
  With positive window sizes and a valid argument no statement raises: the call returns
  the address of a new object, and the heap it leaves is the old one with that object
  appended.
\<close>

lemma calculate_metrics_run:
  fixes h :: heap and a W1 W2 :: nat
  defines "f \<equiv> h ! a"
  defines "n \<equiv> length (rows f)"
  defines "hi \<equiv> \<lambda>i. map Fin (window W1 i (map High (rows f)))"
  defines "lo \<equiv> \<lambda>i. map Fin (window W1 i (map Low (rows f)))"
  defines "nx \<equiv> \<lambda>field i. window W2 i (shift (- int W2) (map (\<lambda>r. Fin (field r)) (rows f)))"
  defines "cl \<equiv> map (\<lambda>r. Fin (Close r)) (rows f)"
  defines "pct \<equiv> \<lambda>e. FloatCol (series_mul (series_div (series_sub cl e) e) 100)"
  defines "c1 \<equiv> map (\<lambda>i. nanmax (hi i)) [0..<n]"
  defines "c2 \<equiv> map (\<lambda>i. nanmin (lo i)) [0..<n]"
  defines "c5 \<equiv> map (\<lambda>i. if observations (nx High i) = [] then NaN else nanmax (nx High i)) [0..<n]"
  defines "c6 \<equiv> map (\<lambda>i. if observations (nx Low i) = [] then NaN else nanmin (nx Low i)) [0..<n]"
  assumes a: "a < length h" and W1: "0 < W1" and W2: "0 < W2"
  shows "calculate_metrics a W1 W2 h =
    Inr (length h, h @ [f\<lparr>derived := (derived f)
      (High_Last W1 \<mapsto> FloatCol c1,
       Low_Last W1 \<mapsto> FloatCol c2,
       Days_Since_High_Last W1 \<mapsto> IntCol (map (\<lambda>i. int (length (hi i)) - 1 - int (argmax (rev (hi i)))) [0..<n]),
       Days_Since_Low_Last W1 \<mapsto> IntCol (map (\<lambda>i. int (length (lo i)) - 1 - int (argmin (rev (lo i)))) [0..<n]),
       High_Next W2 \<mapsto> FloatCol c5,
       Low_Next W2 \<mapsto> FloatCol c6,
       Pct_Diff_From (High_Last W1) \<mapsto> pct c1,
       Pct_Diff_From (Low_Last W1) \<mapsto> pct c2,
       Pct_Diff_From (High_Next W2) \<mapsto> pct c5,
       Pct_Diff_From (Low_Next W2) \<mapsto> pct c6)\<rparr>])"
  unfolding calculate_metrics_def copy_def
    pct_def c1_def c2_def c5_def c6_def cl_def nx_def hi_def lo_def n_def f_def
  using a W1 W2
  by (simp add: and_then_def assign_run trailing_run leading_run pct_diff_run
      days_since_run [where g = "\<lambda>x. int (length x) - 1 - int (argmax (rev x))", OF _ _ since_high_int]
      days_since_run [where g = "\<lambda>x. int (length x) - 1 - int (argmin (rev x))", OF _ _ since_low_int]
      Let_def)

lemma returns_normally:
  "a < length h \<Longrightarrow> 0 < W1 \<Longrightarrow> 0 < W2 \<Longrightarrow> \<not> isl (calculate_metrics a W1 W2 h)"
  by (simp add: calculate_metrics_run)

lemma returned_Inr: "returned (Inr (length h, h @ [f])) = Some f"
  by (simp add: returned_def)

lemma cell_High_Last:
  assumes "a < length h" "0 < W1" "0 < W2" "i < length (rows (h ! a))"
  shows "float_cell (calculate_metrics a W1 W2 h) (High_Last W1) i =
           Some (nanmax (map Fin (window W1 i (map High (rows (h ! a))))))"
  using assms by (simp add: calculate_metrics_run float_cell_def returned_Inr)

lemma cell_Low_Last:
  assumes "a < length h" "0 < W1" "0 < W2" "i < length (rows (h ! a))"
  shows "float_cell (calculate_metrics a W1 W2 h) (Low_Last W1) i =
           Some (nanmin (map Fin (window W1 i (map Low (rows (h ! a))))))"
  using assms by (simp add: calculate_metrics_run float_cell_def returned_Inr)

lemma cell_Days_Since_High:
  assumes "a < length h" "0 < W1" "0 < W2" "i < length (rows (h ! a))"
  shows "int_cell (calculate_metrics a W1 W2 h) (Days_Since_High_Last W1) i =
           Some (int (length (window W1 i (rows (h ! a)))) - 1
                 - int (argmax (rev (map Fin (window W1 i (map High (rows (h ! a))))))))"
  using assms by (simp add: calculate_metrics_run int_cell_def returned_Inr window_map)

lemma cell_Days_Since_Low:
  assumes "a < length h" "0 < W1" "0 < W2" "i < length (rows (h ! a))"
  shows "int_cell (calculate_metrics a W1 W2 h) (Days_Since_Low_Last W1) i =
           Some (int (length (window W1 i (rows (h ! a)))) - 1
                 - int (argmin (rev (map Fin (window W1 i (map Low (rows (h ! a))))))))"
  using assms by (simp add: calculate_metrics_run int_cell_def returned_Inr window_map)

lemma cell_High_Next:
  assumes "a < length h" "0 < W1" "0 < W2" "i < length (rows (h ! a))"
  shows "float_cell (calculate_metrics a W1 W2 h) (High_Next W2) i =
           Some (let x = window W2 i (shift (- int W2) (map (\<lambda>r. Fin (High r)) (rows (h ! a))))
                 in if observations x = [] then NaN else nanmax x)"
  using assms by (simp add: calculate_metrics_run float_cell_def returned_Inr Let_def)

lemma cell_Low_Next:
  assumes "a < length h" "0 < W1" "0 < W2" "i < length (rows (h ! a))"
  shows "float_cell (calculate_metrics a W1 W2 h) (Low_Next W2) i =
           Some (let x = window W2 i (shift (- int W2) (map (\<lambda>r. Fin (Low r)) (rows (h ! a))))
                 in if observations x = [] then NaN else nanmin x)"
  using assms by (simp add: calculate_metrics_run float_cell_def returned_Inr Let_def)

lemma cell_Pct:
  assumes "a < length h" "0 < W1" "0 < W2" "i < length (rows (h ! a))"
    and "name \<in> {High_Last W1, Low_Last W1, High_Next W2, Low_Next W2}"
  shows "float_cell (calculate_metrics a W1 W2 h) (Pct_Diff_From name) i =
           map_option (\<lambda>e. fmul (fdiv (fsub (Fin (Close (rows (h ! a) ! i))) e) e) (Fin 100))
             (float_cell (calculate_metrics a W1 W2 h) name i)"
proof -
  consider "name = High_Last W1" | "name = Low_Last W1" | "name = High_Next W2" | "name = Low_Next W2"
    using assms(5) by blast
  then show ?thesis
  proof cases
    case 1
    then show ?thesis using assms(1-4)
      by (simp add: calculate_metrics_run float_cell_def returned_Inr pct_nth pct_length)
  next
    case 2
    then show ?thesis using assms(1-4)
      by (simp add: calculate_metrics_run float_cell_def returned_Inr pct_nth pct_length)
  next
    case 3
    then show ?thesis using assms(1-4)
      by (simp add: calculate_metrics_run float_cell_def returned_Inr pct_nth pct_length)
  next
    case 4
    then show ?thesis using assms(1-4)
      by (simp add: calculate_metrics_run float_cell_def returned_Inr pct_nth pct_length)
  qed
qed

section \<open>Facts about fetch_crypto_data\<close>

lemma in_map_filter: "y \<in> set (List.map_filter g xs) \<longleftrightarrow> (\<exists>x\<in>set xs. g x = Some y)"
  by (induction xs) (auto split: option.splits)

lemma dropna_row:
  assumes "r \<in> set (dropna date close opn high low)"
  shows "idx r < length date \<and> Date r = date ! idx r \<and> opn ! idx r = Fin (Open r)
       \<and> high ! idx r = Fin (High r) \<and> low ! idx r = Fin (Low r) \<and> close ! idx r = Fin (Close r)"
proof -
  from assms obtain i where i: "i < length date"
    and r: "(case (opn ! i, high ! i, low ! i, close ! i) of
               (Fin o1, Fin h1, Fin l1, Fin c1) \<Rightarrow>
                 Some \<lparr>idx = i, Date = date ! i, Open = o1, High = h1, Low = l1, Close = c1\<rparr>
             | _ \<Rightarrow> None) = Some r"
    unfolding dropna_def in_map_filter by auto
  show ?thesis
  proof (cases "opn ! i")
    case o: (Fin o1)
    show ?thesis
    proof (cases "high ! i")
      case h: (Fin h1)
      show ?thesis
      proof (cases "low ! i")
        case l: (Fin l1)
        show ?thesis
        proof (cases "close ! i")
          case c: (Fin c1)
          from r have "r = \<lparr>idx = i, Date = date ! i, Open = o1, High = h1, Low = l1, Close = c1\<rparr>"
            by (simp add: o h l c)
          then show ?thesis using i by (simp add: o h l c)
        qed (use r in \<open>simp_all add: o h l\<close>)
      qed (use r in \<open>simp_all add: o h\<close>)
    qed (use r in \<open>simp_all add: o\<close>)
  qed (use r in simp_all)
qed

lemma tail_subset: "set (tail k xs) \<subseteq> set xs"
  by (simp add: tail_def set_drop_subset)

lemma fetch_body_Inr:
  assumes "fetch_body env crypto_pair start_date = Inr df"
  shows "\<exists>crypto_id vs_currency from_ts prices high low.
           market_chart_range env crypto_id vs_currency from_ts (now env) = Inr prices
         \<and> rolling 2 2 nanmax (map (\<lambda>p. of_json (snd p)) prices) = Inr high
         \<and> rolling 2 2 nanmin (map (\<lambda>p. of_json (snd p)) prices) = Inr low
         \<and> rows df = tail 14 (dropna (map fst prices) (map (\<lambda>p. of_json (snd p)) prices)
                                (shift 1 (map (\<lambda>p. of_json (snd p)) prices)) high low)"
  using assms unfolding fetch_body_def and_then_def Let_def
  by (auto split: list.splits sum.splits) blast

lemma of_json_Fin: "of_json p = Fin q \<longleftrightarrow> p = Some q"
  by (cases p) simp_all

lemma demo_rows:
  "rows (fetch_crypto_data demo_world ''Bitcoin/USD'' ''2023-01-01'') =
     [\<lparr>idx = 1, Date = 1672617600000, Open = 1, High = 3, Low = 1, Close = 3\<rparr>,
      \<lparr>idx = 2, Date = 1672704000000, Open = 3, High = 3, Low = 2, Close = 2\<rparr>]"
  by code_simp

section \<open>The claims\<close>

subsection \<open>Trailing window\<close>

text \<open>
  Claim C5. For every table, positive window sizes and row \<open>i\<close>, the call returns and
  \<open>High_Last_W1_Days[i]\<close> is the maximum of High over the rows \<open>max(0, i - W1 + 1)\<close> to
  \<open>i\<close>, \<open>Low_Last_W1_Days[i]\<close> the minimum of Low over the same rows. The window ends at
  the current row, never reaches past it, and the cell is always an ordinary number.
\<close>

theorem trailing_extrema:
  assumes "a < length h" "0 < W1" "0 < W2" "i < length (rows (h ! a))"
  shows "float_cell (calculate_metrics a W1 W2 h) (High_Last W1) i =
           Some (Fin (Max {High (rows (h ! a) ! j) | j. max 0 (int i - int W1 + 1) \<le> int j \<and> j \<le> i}))
       \<and> float_cell (calculate_metrics a W1 W2 h) (Low_Last W1) i =
           Some (Fin (Min {Low (rows (h ! a) ! j) | j. max 0 (int i - int W1 + 1) \<le> int j \<and> j \<le> i}))"
proof -
  have ne: "window W1 i (map f (rows (h ! a))) \<noteq> []" for f :: "PriceRow \<Rightarrow> rat"
    using assms by (simp add: window_nonempty)
  show ?thesis
    using assms ne [of High] ne [of Low]
    by (simp add: cell_High_Last cell_Low_Last nanmax_Fin nanmin_Fin window_set_field)
qed

text \<open>The statement at the last row of a three-row table, with the values it yields there.\<close>

theorem trailing_extrema_witness:
  "float_cell (calculate_metrics 0 3 1 [rising]) (High_Last 3) 2 =
           Some (Fin (Max {High (rows ([rising] ! 0) ! j) | j. max 0 (int 2 - int 3 + 1) \<le> int j \<and> j \<le> 2}))
       \<and> float_cell (calculate_metrics 0 3 1 [rising]) (Low_Last 3) 2 =
           Some (Fin (Min {Low (rows ([rising] ! 0) ! j) | j. max 0 (int 2 - int 3 + 1) \<le> int j \<and> j \<le> 2}))
       \<and> float_cell (calculate_metrics 0 3 1 [rising]) (High_Last 3) 2 = Some (Fin 9)
       \<and> float_cell (calculate_metrics 0 3 1 [rising]) (Low_Last 3) 2 = Some (Fin 1)"
proof -
  have "float_cell (calculate_metrics 0 3 1 [rising]) (High_Last 3) 2 = Some (Fin 9)"
    by (simp add: cell_High_Last rising_def) (simp add: window_def nanmax_def)
  moreover have "float_cell (calculate_metrics 0 3 1 [rising]) (Low_Last 3) 2 = Some (Fin 1)"
    by (simp add: cell_Low_Last rising_def) (simp add: window_def nanmin_def)
  moreover have "0 < length [rising]" "2 < length (rows ([rising] ! 0))"
    by (simp_all add: rising_def)
  ultimately show ?thesis
    using trailing_extrema [of 0 "[rising]" 3 1 2] by simp
qed

text \<open>
  Claim C6. On the High series 5, 5, 3 with \<open>W1 = 3\<close> the last row gets
  \<open>Days_Since_High_Last_3_Days = 1\<close>, whatever the other columns and \<open>W2\<close> are.
\<close>

theorem tie_break_5_5_3:
  assumes "a < length h" "0 < W2" "map High (rows (h ! a)) = [5, 5, 3]"
  shows "int_cell (calculate_metrics a 3 W2 h) (Days_Since_High_Last 3) 2 = Some 1"
proof -
  have len: "length (rows (h ! a)) = 3"
    using assms(3) by (metis length_map length_Cons list.size(3) numeral_3_eq_3)
  show ?thesis
    using assms len
    by (simp add: cell_Days_Since_High window_length)
      (simp add: window_def argmax_def nanmax_def)
qed

theorem tie_break_5_5_3_witness:
  "map High (rows ([tied] ! 0)) = [5, 5, 3]
   \<and> int_cell (calculate_metrics 0 3 5 [tied]) (Days_Since_High_Last 3) 2 = Some 1"
proof -
  have hyp: "map High (rows ([tied] ! 0)) = [5, 5, 3]"
    by (simp add: tied_def)
  from tie_break_5_5_3 [of 0 "[tied]" 5, OF _ _ hyp] hyp show ?thesis
    by simp
qed

text \<open>
  Claim C1 says that \<open>Days_Since_High_Last_W1_Days[i]\<close> is the backward distance from
  row \<open>i\<close> to the most recent maximum of the window, so 0 when the maximum is the current
  row. The lambda computes \<open>len(x) - 1 - x[::-1].argmax()\<close>: the reversal already makes
  \<open>argmax\<close> the backward distance, and subtracting it from \<open>len(x) - 1\<close> turns it into
  the position counted from the start of the window. On the High series 1, 2, 9 with
  \<open>W1 = 3\<close> the maximum is the last row itself, and the code reports 2 there, not 0.
\<close>

theorem days_since_high_at_current_high:
  "int_cell (calculate_metrics 0 3 1 [rising]) (Days_Since_High_Last 3) 2 = Some 2"
  by (simp add: cell_Days_Since_High window_length rising_def)
      (simp add: window_def argmax_def nanmax_def)

subsection \<open>Forward window\<close>

text \<open>
  Claim C2 says that \<open>High_Next_W2_Days[i]\<close> is the maximum of High over the rows
  \<open>i + 1\<close> to \<open>min(i + W2, n - 1)\<close>. The code shifts the column back by \<open>W2\<close> and then
  rolls a window of \<open>W2\<close> with \<open>min_periods=1\<close> over the shifted column; at a row
  \<open>i < W2 - 1\<close> that window is cut at the start of the shifted column, so the rows
  \<open>i + 1\<close> to \<open>W2 - 1\<close> are never looked at. On the High series 9, 9, 2 with \<open>W2 = 2\<close>
  row 0 gets 2 (row 2 alone), not the 9 of row 1.
\<close>

theorem high_next_skips_near_rows:
  "float_cell (calculate_metrics 0 7 2 [spike]) (High_Next 2) 0 = Some (Fin 2)"
  by (simp add: cell_High_Next spike_def)
    (simp add: window_def shift_def observations_def nanmax_def)

text \<open>
  Claim C3, as amended. For a table of \<open>n\<close> rows and positive window sizes, the two
  forward-looking cells of row \<open>i\<close> are undefined (NaN) when \<open>n \<le> W2\<close> or \<open>i\<close> is the
  last row, and ordinary numbers on every other row: with \<open>W2 < n\<close> exactly the last
  row is undefined, not the last \<open>W2\<close> rows.
\<close>

theorem forward_undefined_rows:
  assumes "a < length h" "0 < W1" "0 < W2" "i < length (rows (h ! a))"
  shows "if length (rows (h ! a)) \<le> W2 \<or> i + 1 = length (rows (h ! a))
         then float_cell (calculate_metrics a W1 W2 h) (High_Next W2) i = Some NaN
            \<and> float_cell (calculate_metrics a W1 W2 h) (Low_Next W2) i = Some NaN
         else (\<exists>v. float_cell (calculate_metrics a W1 W2 h) (High_Next W2) i = Some (Fin v))
            \<and> (\<exists>v. float_cell (calculate_metrics a W1 W2 h) (Low_Next W2) i = Some (Fin v))"
  using assms ahead_empty [of i "rows (h ! a)" W2]
    nanmax_defined [OF ahead_plain [of i "rows (h ! a)" W2 High]]
    nanmin_defined [OF ahead_plain [of i "rows (h ! a)" W2 Low]]
  by (simp add: cell_High_Next cell_Low_Next Let_def)

theorem forward_undefined_rows_witness:
  "(\<exists>v. float_cell (calculate_metrics 0 7 2 [spike]) (High_Next 2) 1 = Some (Fin v))
   \<and> (\<exists>v. float_cell (calculate_metrics 0 7 2 [spike]) (Low_Next 2) 1 = Some (Fin v))
   \<and> float_cell (calculate_metrics 0 7 2 [spike]) (High_Next 2) 2 = Some NaN
   \<and> float_cell (calculate_metrics 0 7 2 [spike]) (Low_Next 2) 2 = Some NaN"
proof -
  have len: "length (rows spike) = 3"
    by (simp add: spike_def)
  show ?thesis
    using forward_undefined_rows [of 0 "[spike]" 7 2 1] forward_undefined_rows [of 0 "[spike]" 7 2 2]
    by (simp add: len)
qed

text \<open>
  The statement as written fails: with three rows and \<open>W2 = 2\<close>, row 1 is one of the
  final two rows and its \<open>High_Next_2_Days\<close> is the number 2.
\<close>

theorem forward_defined_inside_final_rows:
  "float_cell (calculate_metrics 0 7 2 [spike]) (High_Next 2) 1 = Some (Fin 2)"
  by (simp add: cell_High_Next spike_def)
    (simp add: window_def shift_def observations_def nanmax_def)

subsection \<open>Percentage deviations\<close>

text \<open>
  Claim C4, as amended. Where one of the four extremum cells is exactly 0 (a zero of
  either sign), the call still returns without an error, and the percentage cell of
  that row is not an ordinary number: it is NaN or an infinity.
\<close>

theorem zero_extremum_cell:
  assumes "a < length h" "0 < W1" "0 < W2" "i < length (rows (h ! a))"
    and "name \<in> {High_Last W1, Low_Last W1, High_Next W2, Low_Next W2}"
    and "float_cell (calculate_metrics a W1 W2 h) name i = Some z" "is_zero z"
  shows "\<not> isl (calculate_metrics a W1 W2 h)
       \<and> (\<exists>p. float_cell (calculate_metrics a W1 W2 h) (Pct_Diff_From name) i = Some p
              \<and> p \<in> {NaN, PInf, NInf})"
  using assms(6) pct_of_zero [OF assms(7)]
  by (simp add: cell_Pct [OF assms(1-5)] returns_normally [OF assms(1-3)])

text \<open>
  Row 1 of a two-row table whose Low is 0 on both rows: with Close 7 the cell is plus
  infinity; on row 0, where Close is 0 as well, it is NaN.
\<close>

theorem zero_extremum_cell_witness:
  "float_cell (calculate_metrics 0 2 1 [zero_low]) (Low_Last 2) 1 = Some (Fin 0)
   \<and> is_zero (Fin 0)
   \<and> \<not> isl (calculate_metrics 0 2 1 [zero_low])
   \<and> (\<exists>p. float_cell (calculate_metrics 0 2 1 [zero_low]) (Pct_Diff_From (Low_Last 2)) 1 = Some p
          \<and> p \<in> {NaN, PInf, NInf})
   \<and> float_cell (calculate_metrics 0 2 1 [zero_low]) (Pct_Diff_From (Low_Last 2)) 1 = Some PInf
   \<and> float_cell (calculate_metrics 0 2 1 [zero_low]) (Pct_Diff_From (Low_Last 2)) 0 = Some NaN"
proof -
  have hyp: "float_cell (calculate_metrics 0 2 1 [zero_low]) (Low_Last 2) 1 = Some (Fin 0)"
    by (simp add: cell_Low_Last zero_low_def) (simp add: window_def nanmin_def)
  have first: "float_cell (calculate_metrics 0 2 1 [zero_low]) (Low_Last 2) 0 = Some (Fin 0)"
    by (simp add: cell_Low_Last zero_low_def) (simp add: window_def nanmin_def)
  have row: "1 < length (rows ([zero_low] ! 0))" "0 < length (rows ([zero_low] ! 0))"
    by (simp_all add: zero_low_def)
  have "float_cell (calculate_metrics 0 2 1 [zero_low]) (Pct_Diff_From (Low_Last 2)) 1 =
          map_option (\<lambda>e. fmul (fdiv (fsub (Fin (Close (rows ([zero_low] ! 0) ! 1))) e) e) (Fin 100))
            (float_cell (calculate_metrics 0 2 1 [zero_low]) (Low_Last 2) 1)"
    by (rule cell_Pct) (simp_all add: zero_low_def)
  then have inf: "float_cell (calculate_metrics 0 2 1 [zero_low]) (Pct_Diff_From (Low_Last 2)) 1 = Some PInf"
    unfolding hyp by (simp add: zero_low_def fsub_def fdiv_def fmul_def round64_exact_7)
  have "float_cell (calculate_metrics 0 2 1 [zero_low]) (Pct_Diff_From (Low_Last 2)) 0 =
          map_option (\<lambda>e. fmul (fdiv (fsub (Fin (Close (rows ([zero_low] ! 0) ! 0))) e) e) (Fin 100))
            (float_cell (calculate_metrics 0 2 1 [zero_low]) (Low_Last 2) 0)"
    by (rule cell_Pct) (simp_all add: zero_low_def)
  then have nan: "float_cell (calculate_metrics 0 2 1 [zero_low]) (Pct_Diff_From (Low_Last 2)) 0 = Some NaN"
    unfolding first by (simp add: zero_low_def fsub_def fdiv_def fmul_def)
  from zero_extremum_cell [of 0 "[zero_low]" 2 1 1 "Low_Last 2" "Fin 0", OF _ _ _ row(1) _ hyp] hyp inf nan
  show ?thesis by simp
qed

text \<open>
  The statement as written fails: on a row with Low 0 and Close 5 the call returns, and
  the cell holds plus infinity; nothing is raised.
\<close>

theorem zero_extremum_counterexample:
  "float_cell (calculate_metrics 0 1 1 [dip]) (Low_Last 1) 0 = Some (Fin 0)
   \<and> float_cell (calculate_metrics 0 1 1 [dip]) (Pct_Diff_From (Low_Last 1)) 0 = Some PInf
   \<and> \<not> isl (calculate_metrics 0 1 1 [dip])"
proof -
  have low: "float_cell (calculate_metrics 0 1 1 [dip]) (Low_Last 1) 0 = Some (Fin 0)"
    by (simp add: cell_Low_Last dip_def) (simp add: window_def nanmin_def)
  have "float_cell (calculate_metrics 0 1 1 [dip]) (Pct_Diff_From (Low_Last 1)) 0 =
          map_option (\<lambda>e. fmul (fdiv (fsub (Fin (Close (rows ([dip] ! 0) ! 0))) e) e) (Fin 100))
            (float_cell (calculate_metrics 0 1 1 [dip]) (Low_Last 1) 0)"
    by (rule cell_Pct) (simp_all add: dip_def)
  then have "float_cell (calculate_metrics 0 1 1 [dip]) (Pct_Diff_From (Low_Last 1)) 0 = Some PInf"
    unfolding low by (simp add: dip_def fsub_def fdiv_def fmul_def round64_exact_5)
  with low show ?thesis
    by (simp add: returns_normally)
qed




subsection \<open>Shape of the result\<close>

text \<open>
  Claim C8. For every table and positive window sizes the call returns a table with the
  same rows in the same order, and each of the ten added columns has one cell per row:
  no row is dropped, undefined cells included.
\<close>

theorem same_rows:
  assumes "a < length h" "0 < W1" "0 < W2"
  shows "\<exists>out. returned (calculate_metrics a W1 W2 h) = Some out
           \<and> rows out = rows (h ! a)
           \<and> (\<forall>name\<in>set (metric_names W1 W2).
                 \<exists>c. derived out name = Some c \<and> column_length c = length (rows (h ! a)))"
  using assms
  by (simp add: calculate_metrics_run returned_Inr metric_names_def pct_length)

theorem same_rows_witness:
  "\<exists>out. returned (calculate_metrics 0 3 1 [rising]) = Some out
           \<and> rows out = rows ([rising] ! 0)
           \<and> (\<forall>name\<in>set (metric_names 3 1).
                 \<exists>c. derived out name = Some c \<and> column_length c = length (rows ([rising] ! 0)))"
  using same_rows [of 0 "[rising]" 3 1] by simp

text \<open>
  Claim C10. The call leaves every object that existed before it as it was, the
  argument included: the result is a new object. Its price rows (Date, Open, High, Low,
  Close) are those of the argument, and every column other than the ten added ones is
  as in the argument.
\<close>

theorem argument_untouched:
  assumes "a < length h" "0 < W1" "0 < W2"
  shows "\<exists>d h'. calculate_metrics a W1 W2 h = Inr (d, h')
           \<and> d = length h
           \<and> take (length h) h' = h
           \<and> h' ! a = h ! a
           \<and> rows (h' ! d) = rows (h ! a)
           \<and> (\<forall>name. name \<notin> set (metric_names W1 W2) \<longrightarrow> derived (h' ! d) name = derived (h ! a) name)"
  using assms
  by (simp add: calculate_metrics_run metric_names_def nth_append)

theorem argument_untouched_witness:
  "\<exists>d h'. calculate_metrics 1 3 1 [spike, rising] = Inr (d, h')
           \<and> d = length [spike, rising]
           \<and> take (length [spike, rising]) h' = [spike, rising]
           \<and> h' ! 1 = [spike, rising] ! 1
           \<and> rows (h' ! d) = rows ([spike, rising] ! 1)
           \<and> (\<forall>name. name \<notin> set (metric_names 3 1) \<longrightarrow>
                 derived (h' ! d) name = derived ([spike, rising] ! 1) name)"
  using argument_untouched [of 1 "[spike, rising]" 3 1] by simp

subsection \<open>The fetched table\<close>

text \<open>
  Claim C9. Every row of the table that \<open>fetch_crypto_data\<close> returns comes from a
  delivered price series and carries an index \<open>i \<ge> 1\<close> into it (the first raw row is
  gone): its Close is the price at \<open>i\<close>, its Open the price at \<open>i - 1\<close>, its High the
  larger and its Low the smaller of the two.
\<close>

theorem fetched_rows:
  assumes "r \<in> set (rows (fetch_crypto_data env crypto_pair start_date))"
  shows "\<exists>crypto_id vs_currency from_ts prices.
           market_chart_range env crypto_id vs_currency from_ts (now env) = Inr prices
         \<and> 1 \<le> idx r \<and> idx r < length prices
         \<and> Date r = fst (prices ! idx r)
         \<and> snd (prices ! (idx r - 1)) = Some (Open r)
         \<and> snd (prices ! idx r) = Some (Close r)
         \<and> High r = max (Open r) (Close r)
         \<and> Low r = min (Open r) (Close r)"
proof -
  obtain df where df: "fetch_body env crypto_pair start_date = Inr df" and r: "r \<in> set (rows df)"
    using assms unfolding fetch_crypto_data_def empty_frame_def
    by (cases "fetch_body env crypto_pair start_date") auto
  from fetch_body_Inr [OF df] obtain crypto_id vs_currency from_ts prices high low where
    get: "market_chart_range env crypto_id vs_currency from_ts (now env) = Inr prices"
    and high: "rolling 2 2 nanmax (map (\<lambda>p. of_json (snd p)) prices) = Inr high"
    and low: "rolling 2 2 nanmin (map (\<lambda>p. of_json (snd p)) prices) = Inr low"
    and rows: "rows df = tail 14 (dropna (map fst prices) (map (\<lambda>p. of_json (snd p)) prices)
                                (shift 1 (map (\<lambda>p. of_json (snd p)) prices)) high low)"
    by blast
  let ?close = "map (\<lambda>p. of_json (snd p)) prices"
  let ?i = "idx r"
  from r rows have "r \<in> set (dropna (map fst prices) ?close (shift 1 ?close) high low)"
    using tail_subset by fastforce
  note row = dropna_row [OF this]
  from row have i: "?i < length prices"
    by simp
  from row i have date: "Date r = fst (prices ! ?i)"
    and opn: "shift 1 ?close ! ?i = Fin (Open r)"
    and hi: "high ! ?i = Fin (High r)"
    and lo: "low ! ?i = Fin (Low r)"
    and cl: "of_json (snd (prices ! ?i)) = Fin (Close r)"
    by simp_all
  from opn i have pos: "0 < ?i" and prev: "of_json (snd (prices ! (?i - 1))) = Fin (Open r)"
    by (auto simp add: shift_one_nth split: if_splits)
  from rolling_two_nth [OF high _ hi] i pos prev cl have "High r = max (Open r) (Close r)"
    by (simp add: nanmax_def)
  moreover from rolling_two_nth [OF low _ lo] i pos prev cl have "Low r = min (Open r) (Close r)"
    by (simp add: nanmin_def)
  ultimately show ?thesis
    using get i pos date prev cl by (auto simp add: of_json_Fin)
qed

theorem fetched_rows_witness:
  "\<lparr>idx = 1, Date = 1672617600000, Open = 1, High = 3, Low = 1, Close = 3\<rparr>
      \<in> set (rows (fetch_crypto_data demo_world ''Bitcoin/USD'' ''2023-01-01''))
   \<and> (\<exists>crypto_id vs_currency from_ts prices.
           market_chart_range demo_world crypto_id vs_currency from_ts (now demo_world) = Inr prices
         \<and> 1 \<le> (1::nat) \<and> 1 < length prices
         \<and> 1672617600000 = fst (prices ! 1)
         \<and> snd (prices ! (1 - 1)) = Some 1
         \<and> snd (prices ! 1) = Some 3
         \<and> (3::rat) = max 1 3
         \<and> (1::rat) = min 1 3)"
proof -
  have mem: "\<lparr>idx = 1, Date = 1672617600000, Open = 1, High = 3, Low = 1, Close = 3\<rparr>
      \<in> set (rows (fetch_crypto_data demo_world ''Bitcoin/USD'' ''2023-01-01''))"
    by (simp add: demo_rows)
  from fetched_rows [OF mem] mem show ?thesis
    by simp
qed

end
